theory Spec2Isabelle
  imports Main "HOL-Library.Word"
begin

section \<open>Data model\<close>

text \<open>
  The source file \<^verbatim>\<open>i128_atomic.c\<close> has two branches, chosen by the preprocessor symbol
  \<^verbatim>\<open>_WIN32\<close>. Both operate on a 16-byte cell in caller-owned memory; the functions own
  nothing and only read and write through the pointers they are given.
\<close>

type_synonym u64 = "64 word"
type_synonym u128 = "128 word"

text \<open>
  \<^verbatim>\<open>typedef struct { uint64_t low; uint64_t high; } atomic128_t;\<close>
  (the branch taken when \<^verbatim>\<open>_WIN32\<close> is not defined).
\<close>

record atomic128_t =
  low :: u64
  high :: u64

text \<open>The memory-order constants of the compiler's atomic built-ins.\<close>

datatype memorder =
  ATOMIC_RELAXED | ATOMIC_CONSUME | ATOMIC_ACQUIRE | ATOMIC_RELEASE | ATOMIC_ACQ_REL | ATOMIC_SEQ_CST

text \<open>
  Pointers are addresses. In the branch without \<^verbatim>\<open>_WIN32\<close> every pointer has type
  \<^verbatim>\<open>atomic128_t*\<close>, so the memory is a store of \<^verbatim>\<open>atomic128_t\<close> objects: two pointers
  denote the same object or two separate ones. Nothing is assumed about which pointers of a
  call are equal.
\<close>

type_synonym ptr = nat
type_synonym heap = "ptr \<Rightarrow> atomic128_t"

text \<open>
  In the \<^verbatim>\<open>_WIN32\<close> branch every pointer has type \<^verbatim>\<open>__int64*\<close> and is indexed with
  \<^verbatim>\<open>[0]\<close> and \<^verbatim>\<open>[1]\<close>, so the memory is a store of 64-bit words addressed in units of
  8 bytes: \<^verbatim>\<open>p[i]\<close> is the word at \<open>p + i\<close>. Two such arrays may overlap in one word.
\<close>

type_synonym wheap = "ptr \<Rightarrow> u64"


section \<open>The compiler's generic atomic built-ins, seen by one thread\<close>

text \<open>
  \<^verbatim>\<open>__atomic_load (ptr, ret, memorder)\<close> copies the contents of \<^verbatim>\<open>*ptr\<close> into \<^verbatim>\<open>*ret\<close>.
  The memory order constrains what other threads may observe around the access; the value
  that the calling thread obtains does not depend on it.
\<close>

definition atomic_load :: "heap \<Rightarrow> ptr \<Rightarrow> ptr \<Rightarrow> memorder \<Rightarrow> heap" where
  "atomic_load h p ret mo = h(ret := h p)"

text \<open>\<^verbatim>\<open>__atomic_store (ptr, val, memorder)\<close> copies the contents of \<^verbatim>\<open>*val\<close> into \<^verbatim>\<open>*ptr\<close>.\<close>

definition atomic_store :: "heap \<Rightarrow> ptr \<Rightarrow> ptr \<Rightarrow> memorder \<Rightarrow> heap" where
  "atomic_store h p val mo = h(p := h val)"

text \<open>
  \<^verbatim>\<open>__atomic_compare_exchange (ptr, expected, desired, weak, success_memorder,
  failure_memorder)\<close> compares the contents of \<^verbatim>\<open>*ptr\<close> with the contents of
  \<^verbatim>\<open>*expected\<close>. If they are equal, it writes \<^verbatim>\<open>*desired\<close> into \<^verbatim>\<open>*ptr\<close> and returns
  true. Otherwise it writes the current contents of \<^verbatim>\<open>*ptr\<close> into \<^verbatim>\<open>*expected\<close> and
  returns false. With \<^verbatim>\<open>weak\<close> true the operation may fail although the contents are
  equal; whether it does is decided by the hardware, not by the program, and is the
  parameter \<open>spurious\<close> here. With \<^verbatim>\<open>weak\<close> false that parameter has no influence.
\<close>

definition atomic_compare_exchange ::
  "bool \<Rightarrow> heap \<Rightarrow> ptr \<Rightarrow> ptr \<Rightarrow> ptr \<Rightarrow> bool \<Rightarrow> memorder \<Rightarrow> memorder \<Rightarrow> bool \<times> heap" where
  "atomic_compare_exchange spurious h p expected desired weak success_mo failure_mo =
     (if h p = h expected \<and> \<not> (weak \<and> spurious)
      then (True, h(p := h desired))
      else (False, h(expected := h p)))"


section \<open>The exported functions of the branch without \<^verbatim>\<open>_WIN32\<close>\<close>

definition getOpaque_i128 :: "heap \<Rightarrow> ptr \<Rightarrow> ptr \<Rightarrow> heap" where
  "getOpaque_i128 h addr out = atomic_load h addr out ATOMIC_RELAXED"

definition getAcquire_i128 :: "heap \<Rightarrow> ptr \<Rightarrow> ptr \<Rightarrow> heap" where
  "getAcquire_i128 h addr out = atomic_load h addr out ATOMIC_ACQUIRE"

definition getVolatile_i128 :: "heap \<Rightarrow> ptr \<Rightarrow> ptr \<Rightarrow> heap" where
  "getVolatile_i128 h addr out = atomic_load h addr out ATOMIC_SEQ_CST"

definition compareAndSet_i128 :: "bool \<Rightarrow> heap \<Rightarrow> ptr \<Rightarrow> ptr \<Rightarrow> ptr \<Rightarrow> bool \<times> heap" where
  "compareAndSet_i128 spurious h addr expected desired =
     atomic_compare_exchange spurious h addr expected desired False ATOMIC_SEQ_CST ATOMIC_SEQ_CST"

definition weakCompareAndSetRelease_i128 ::
  "bool \<Rightarrow> heap \<Rightarrow> ptr \<Rightarrow> ptr \<Rightarrow> ptr \<Rightarrow> bool \<times> heap" where
  "weakCompareAndSetRelease_i128 spurious h addr expected desired =
     atomic_compare_exchange spurious h addr expected desired True ATOMIC_RELEASE ATOMIC_RELAXED"

definition setOpaque_i128 :: "heap \<Rightarrow> ptr \<Rightarrow> ptr \<Rightarrow> heap" where
  "setOpaque_i128 h addr val = atomic_store h addr val ATOMIC_RELAXED"

definition setRelease_i128 :: "heap \<Rightarrow> ptr \<Rightarrow> ptr \<Rightarrow> heap" where
  "setRelease_i128 h addr val = atomic_store h addr val ATOMIC_RELEASE"

definition setVolatile_i128 :: "heap \<Rightarrow> ptr \<Rightarrow> ptr \<Rightarrow> heap" where
  "setVolatile_i128 h addr val = atomic_store h addr val ATOMIC_SEQ_CST"


section \<open>The \<^verbatim>\<open>_WIN32\<close> branch\<close>

text \<open>
  The 128-bit field that starts at word \<open>p\<close>: the word at \<open>p\<close> holds bits 0 to 63 and the
  word at \<open>p + 1\<close> holds bits 64 to 127.
\<close>

definition load128 :: "wheap \<Rightarrow> ptr \<Rightarrow> u128" where
  "load128 m p = word_cat (m (p + 1)) (m p)"

definition store128 :: "wheap \<Rightarrow> ptr \<Rightarrow> u128 \<Rightarrow> wheap" where
  "store128 m p v = m(p := ucast v, p + 1 := ucast (drop_bit 64 v))"

text \<open>
  \<^verbatim>\<open>_InterlockedCompareExchange128 (Destination, ExchangeHigh, ExchangeLow,
  ComparandResult)\<close>: the double-width compare-and-exchange instruction. It compares the
  128-bit field at \<^verbatim>\<open>Destination\<close> with the one at \<^verbatim>\<open>ComparandResult\<close>; if they are equal
  it stores \<^verbatim>\<open>ExchangeHigh:ExchangeLow\<close> at \<^verbatim>\<open>Destination\<close>. In both cases the original
  contents of the destination are written to \<^verbatim>\<open>ComparandResult\<close>. The result is 1 if the
  fields were equal and 0 otherwise.
\<close>

definition InterlockedCompareExchange128 ::
  "wheap \<Rightarrow> ptr \<Rightarrow> u64 \<Rightarrow> u64 \<Rightarrow> ptr \<Rightarrow> 8 word \<times> wheap" where
  "InterlockedCompareExchange128 m Destination ExchangeHigh ExchangeLow ComparandResult =
     (let original = load128 m Destination;
          comparand = load128 m ComparandResult;
          m' = (if original = comparand
                then store128 m Destination (word_cat ExchangeHigh ExchangeLow)
                else m)
      in (if original = comparand then 1 else 0, store128 m' ComparandResult original))"

text \<open>
  The exported function reads \<^verbatim>\<open>desired[1]\<close> and \<^verbatim>\<open>desired[0]\<close>, calls the intrinsic and
  converts its \<^verbatim>\<open>unsigned char\<close> result to \<^verbatim>\<open>bool\<close>.
\<close>

definition compareAndSet_i128_win32 :: "wheap \<Rightarrow> ptr \<Rightarrow> ptr \<Rightarrow> ptr \<Rightarrow> bool \<times> wheap" where
  "compareAndSet_i128_win32 m addr expected desired =
     (case InterlockedCompareExchange128 m addr (m (desired + 1)) (m desired) expected of
        (r, m') \<Rightarrow> (r \<noteq> 0, m'))"


text \<open>
  The struct of the other branch laid over this memory: field \<^verbatim>\<open>low\<close> is at offset 0, which
  is index 0 of the array, and field \<^verbatim>\<open>high\<close> is at offset 8, which is index 1.
\<close>

definition struct_at :: "wheap \<Rightarrow> ptr \<Rightarrow> atomic128_t" where
  "struct_at m p = \<lparr>low = m p, high = m (p + 1)\<rparr>"


section \<open>The exported interface\<close>

text \<open>
  Which functions a build exports, and the primitive each one calls with which constant
  arguments. \<open>Atomic_compare_exchange\<close> carries the \<^verbatim>\<open>weak\<close> flag, the success order and
  the failure order.
\<close>

datatype build = WIN32 | Not_WIN32

datatype primitive =
  Atomic_load memorder
  | Atomic_store memorder
  | Atomic_compare_exchange bool memorder memorder
  | Interlocked_compare_exchange128

definition exported :: "build \<Rightarrow> (string \<times> primitive) list" where
  "exported b =
     (case b of
        WIN32 \<Rightarrow>
          [(''compareAndSet_i128'', Interlocked_compare_exchange128)]
      | Not_WIN32 \<Rightarrow>
          [(''getOpaque_i128'', Atomic_load ATOMIC_RELAXED),
           (''getAcquire_i128'', Atomic_load ATOMIC_ACQUIRE),
           (''getVolatile_i128'', Atomic_load ATOMIC_SEQ_CST),
           (''compareAndSet_i128'', Atomic_compare_exchange False ATOMIC_SEQ_CST ATOMIC_SEQ_CST),
           (''weakCompareAndSetRelease_i128'',
              Atomic_compare_exchange True ATOMIC_RELEASE ATOMIC_RELAXED),
           (''setOpaque_i128'', Atomic_store ATOMIC_RELAXED),
           (''setRelease_i128'', Atomic_store ATOMIC_RELEASE),
           (''setVolatile_i128'', Atomic_store ATOMIC_SEQ_CST)])"

datatype family = Load | Store | Strong_CAS | Weak_CAS

fun family_of :: "primitive \<Rightarrow> family" where
  "family_of (Atomic_load mo) = Load"
| "family_of (Atomic_store mo) = Store"
| "family_of (Atomic_compare_exchange weak smo fmo) = (if weak then Weak_CAS else Strong_CAS)"
| "family_of Interlocked_compare_exchange128 = Strong_CAS"

fun load_order :: "primitive \<Rightarrow> memorder option" where
  "load_order (Atomic_load mo) = Some mo"
| "load_order c = None"

fun store_order :: "primitive \<Rightarrow> memorder option" where
  "store_order (Atomic_store mo) = Some mo"
| "store_order c = None"


section \<open>Sample memories\<close>

text \<open>
  A store of structs in which the object at address 16 is the cell and the objects at 32,
  48 and 64 are buffers of the caller; the cell and the buffer at 32 hold the same value.
\<close>

definition sample_heap :: heap where
  "sample_heap =
     (\<lambda>p. \<lparr>low = 0, high = 0\<rparr>)
       (16 := \<lparr>low = 1, high = 2\<rparr>,
        32 := \<lparr>low = 1, high = 2\<rparr>,
        48 := \<lparr>low = 3, high = 4\<rparr>,
        64 := \<lparr>low = 5, high = 6\<rparr>)"

text \<open>The same contents as arrays of two words that start at the words 2, 4, 6 and 8.\<close>

definition sample_wheap :: wheap where
  "sample_wheap = (\<lambda>p. 0)(2 := 1, 3 := 2, 4 := 1, 5 := 2, 6 := 3, 7 := 4, 8 := 5, 9 := 6)"


section \<open>The sample memories, entry by entry\<close>

lemma sample_heap_values:
  "sample_heap 16 = \<lparr>low = 1, high = 2\<rparr>"
  "sample_heap 32 = \<lparr>low = 1, high = 2\<rparr>"
  "sample_heap 48 = \<lparr>low = 3, high = 4\<rparr>"
  "sample_heap 64 = \<lparr>low = 5, high = 6\<rparr>"
  by (simp_all add: sample_heap_def)

lemma sample_wheap_values:
  "sample_wheap 2 = 1" "sample_wheap 3 = 2" "sample_wheap 4 = 1" "sample_wheap 5 = 2"
  "sample_wheap 6 = 3" "sample_wheap 7 = 4" "sample_wheap 8 = 5" "sample_wheap 9 = 6"
  by (simp_all add: sample_wheap_def)


section \<open>Loads and stores\<close>

lemma atomic_load_result: "atomic_load h p ret mo ret = h p"
  by (simp add: atomic_load_def)

lemma atomic_load_source: "atomic_load h p ret mo p = h p"
  by (simp add: atomic_load_def)

lemma atomic_store_result: "atomic_store h p val mo p = h val"
  by (simp add: atomic_store_def)

lemma atomic_load_memorder: "atomic_load h p ret mo = atomic_load h p ret mo'"
  by (simp add: atomic_load_def)

lemma atomic_store_memorder: "atomic_store h p val mo = atomic_store h p val mo'"
  by (simp add: atomic_store_def)

text \<open>
  Claim C4. A sequentially consistent store of a value to a cell, followed at once by a
  sequentially consistent load of that cell in the same thread, yields exactly the stored
  value. The value is the one that the store's argument points to; it is arbitrary, and the
  all-zero value, the all-ones value and the values with one half at its maximum are
  instances. The statement holds whichever of the pointers coincide.
\<close>

theorem setVolatile_getVolatile_roundtrip:
  "getVolatile_i128 (setVolatile_i128 h addr val) addr out out = h val"
  by (simp add: getVolatile_i128_def setVolatile_i128_def atomic_load_result atomic_store_result)

text \<open>
  Claim C10. For one thread the three load functions are the same function: each leaves
  the cell as it was and delivers the cell's contents through \<open>out\<close>. The three store
  functions are the same function: each replaces the cell's contents by the given value.
  The memory order does not enter the result.
\<close>

theorem ordering_variants_coincide:
  "getOpaque_i128 = getAcquire_i128 \<and>
   getAcquire_i128 = getVolatile_i128 \<and>
   getVolatile_i128 h addr out out = h addr \<and>
   getVolatile_i128 h addr out addr = h addr \<and>
   setOpaque_i128 = setRelease_i128 \<and>
   setRelease_i128 = setVolatile_i128 \<and>
   setVolatile_i128 h addr val addr = h val"
  by (simp add: fun_eq_iff getOpaque_i128_def getAcquire_i128_def getVolatile_i128_def
      setOpaque_i128_def setRelease_i128_def setVolatile_i128_def
      atomic_load_def atomic_store_def)


section \<open>Compare-and-swap on the struct store\<close>

lemma cas_success:
  assumes "h addr = h expected"
  shows "compareAndSet_i128 sp h addr expected desired = (True, h(addr := h desired))"
  using assms by (simp add: compareAndSet_i128_def atomic_compare_exchange_def)

lemma cas_failure:
  assumes "h addr \<noteq> h expected"
  shows "compareAndSet_i128 sp h addr expected desired = (False, h(expected := h addr))"
  using assms by (simp add: compareAndSet_i128_def atomic_compare_exchange_def)

lemma weak_cas_failure:
  assumes "h addr \<noteq> h expected"
  shows "weakCompareAndSetRelease_i128 sp h addr expected desired =
         (False, h(expected := h addr))"
  using assms by (simp add: weakCompareAndSetRelease_i128_def atomic_compare_exchange_def)

text \<open>
  The weak variant is where the hardware's choice shows: when the choice is to fail, the
  call reports failure although the contents match, and the memory is as before.
\<close>

lemma weak_cas_spurious_failure:
  assumes "h addr = h expected"
  shows "weakCompareAndSetRelease_i128 True h addr expected desired = (False, h)"
  using assms by (simp add: weakCompareAndSetRelease_i128_def atomic_compare_exchange_def)

lemma weak_cas_success:
  assumes "h addr = h expected"
  shows "weakCompareAndSetRelease_i128 False h addr expected desired =
         (True, h(addr := h desired))"
  using assms by (simp add: weakCompareAndSetRelease_i128_def atomic_compare_exchange_def)

text \<open>
  Claim C2. The strong compare-and-swap never fails spuriously: whenever the cell's
  contents equal the expected value, \<open>compareAndSet_i128\<close> returns true, whatever the
  hardware's choice \<open>spurious\<close> is, and the cell then holds the desired value.
\<close>

theorem strong_cas_never_fails_spuriously:
  assumes "h addr = h expected"
  shows "fst (compareAndSet_i128 spurious h addr expected desired) \<and>
         snd (compareAndSet_i128 spurious h addr expected desired) addr = h desired"
  using assms by (simp add: cas_success)

theorem strong_cas_never_fails_spuriously_witness:
  "sample_heap 16 = sample_heap 32 \<and>
   fst (compareAndSet_i128 True sample_heap 16 32 48) \<and>
   snd (compareAndSet_i128 True sample_heap 16 32 48) 16 = \<lparr>low = 3, high = 4\<rparr>"
proof -
  have eq: "sample_heap 16 = sample_heap 32"
    by (simp add: sample_heap_values)
  show ?thesis
    using eq strong_cas_never_fails_spuriously [OF eq, of True 48]
    by (simp add: sample_heap_values)
qed

text \<open>
  Claim C3. When a compare-and-swap, strong or weak, finds the cell's contents different
  from the expected value, it returns false, leaves the cell as it was and writes the
  cell's contents into the expected buffer. The outcome is an ordinary result of the
  function: a boolean and the updated memory.
\<close>

theorem cas_mismatch:
  assumes "h addr \<noteq> h expected"
  shows "compareAndSet_i128 sp h addr expected desired = (False, h(expected := h addr)) \<and>
         weakCompareAndSetRelease_i128 sp h addr expected desired =
           (False, h(expected := h addr)) \<and>
         (h(expected := h addr)) addr = h addr \<and>
         (h(expected := h addr)) expected = h addr"
  using assms by (simp add: cas_failure weak_cas_failure)

theorem cas_mismatch_witness:
  "sample_heap 16 \<noteq> sample_heap 48 \<and>
   compareAndSet_i128 False sample_heap 16 48 64 =
     (False, sample_heap(48 := \<lparr>low = 1, high = 2\<rparr>)) \<and>
   weakCompareAndSetRelease_i128 False sample_heap 16 48 64 =
     (False, sample_heap(48 := \<lparr>low = 1, high = 2\<rparr>))"
proof -
  have ne: "sample_heap 16 \<noteq> sample_heap 48"
    by (simp add: sample_heap_values)
  show ?thesis
    using ne cas_mismatch [OF ne, of False 64] by (simp add: sample_heap_values)
qed

lemma posix_scenario:
  assumes "V0 \<noteq> V1"
    and "h addr = V0" "h e1 = V0" "h d1 = V1"
    and h1: "h1 = snd (compareAndSet_i128 sp1 h addr e1 d1)"
    and h2: "h2 = getVolatile_i128 h1 addr out"
    and "h2 e2 = V0" "h2 d2 = V2"
  shows "fst (compareAndSet_i128 sp1 h addr e1 d1) \<and> h2 out = V1 \<and> h2 addr = V1 \<and>
         \<not> fst (compareAndSet_i128 sp2 h2 addr e2 d2) \<and>
         snd (compareAndSet_i128 sp2 h2 addr e2 d2) addr = V1 \<and>
         snd (compareAndSet_i128 sp2 h2 addr e2 d2) e2 = V1"
proof -
  have first: "compareAndSet_i128 sp1 h addr e1 d1 = (True, h(addr := V1))"
    using assms(2-4) cas_success [of h addr e1 sp1 d1] by simp
  then have "h1 addr = V1" using h1 by simp
  then have cell: "h2 addr = V1" and res: "h2 out = V1"
    using h2 by (simp_all add: getVolatile_i128_def atomic_load_def)
  have "h2 addr \<noteq> h2 e2" using cell assms(1,7) by simp
  then have "compareAndSet_i128 sp2 h2 addr e2 d2 = (False, h2(e2 := h2 addr))"
    by (rule cas_failure)
  with first cell res show ?thesis by simp
qed


section \<open>The double-width instruction on the word store\<close>

lemma ucast_word_cat_low: "(ucast (word_cat (hi :: u64) (lo :: u64) :: u128) :: u64) = lo"
  by (rule bit_word_eqI) (simp add: bit_simps)

lemma ucast_word_cat_high:
  "(ucast (drop_bit 64 (word_cat (hi :: u64) (lo :: u64) :: u128)) :: u64) = hi"
  by (rule bit_word_eqI) (simp add: bit_simps)

lemma word_cat_halves:
  "(word_cat (ucast (drop_bit 64 v) :: u64) (ucast v :: u64) :: u128) = v"
  by (rule bit_word_eqI) (auto simp add: bit_simps)

lemma word_cat_eq_iff:
  "(word_cat a b :: u128) = word_cat c d \<longleftrightarrow> (a :: u64) = c \<and> (b :: u64) = d"
  by (metis ucast_word_cat_low ucast_word_cat_high)

lemma load128_store128: "load128 (store128 m p v) p = v"
  by (simp add: load128_def store128_def word_cat_halves)

lemma load128_store128_other:
  "q + 1 < p \<or> p + 1 < q \<Longrightarrow> load128 (store128 m q v) p = load128 m p"
  by (auto simp add: load128_def store128_def)

lemma load128_eq_iff: "load128 m p = load128 m' q \<longleftrightarrow> struct_at m p = struct_at m' q"
  by (simp add: load128_def struct_at_def word_cat_eq_iff conj_commute)

lemma load128_struct_at:
  "load128 m p = word_cat (high (struct_at m p)) (low (struct_at m p))"
  by (simp add: load128_def struct_at_def)

lemma struct_at_store128_load128:
  "struct_at (store128 n p (load128 m q)) p = struct_at m q"
  by (simp add: struct_at_def store128_def load128_def ucast_word_cat_low ucast_word_cat_high)

lemma struct_at_store128_other:
  "q + 1 < p \<or> p + 1 < q \<Longrightarrow> struct_at (store128 m q v) p = struct_at m p"
  by (auto simp add: struct_at_def store128_def)

lemma win32_cas_success:
  assumes "load128 m addr = load128 m expected"
  shows "compareAndSet_i128_win32 m addr expected desired =
    (True, store128 (store128 m addr (load128 m desired)) expected (load128 m addr))"
  using assms
  by (simp add: compareAndSet_i128_win32_def InterlockedCompareExchange128_def Let_def
      load128_def)

lemma win32_cas_failure:
  assumes "load128 m addr \<noteq> load128 m expected"
  shows "compareAndSet_i128_win32 m addr expected desired =
    (False, store128 m expected (load128 m addr))"
  using assms
  by (simp add: compareAndSet_i128_win32_def InterlockedCompareExchange128_def Let_def)

lemma win32_scenario:
  assumes "W0 \<noteq> W1"
    and "load128 m a = W0" "load128 m x1 = W0" "load128 m y1 = W1"
    and sep1: "x1 + 1 < a \<or> a + 1 < x1"
    and m1: "m1 = snd (compareAndSet_i128_win32 m a x1 y1)"
    and "load128 m1 x2 = W0" "load128 m1 y2 = W2"
    and sep2: "x2 + 1 < a \<or> a + 1 < x2"
  shows "fst (compareAndSet_i128_win32 m a x1 y1) \<and> load128 m1 a = W1 \<and>
         \<not> fst (compareAndSet_i128_win32 m1 a x2 y2) \<and>
         load128 (snd (compareAndSet_i128_win32 m1 a x2 y2)) a = W1 \<and>
         load128 (snd (compareAndSet_i128_win32 m1 a x2 y2)) x2 = W1"
proof -
  have first: "compareAndSet_i128_win32 m a x1 y1 = (True, store128 (store128 m a W1) x1 W0)"
    using assms(2-4) win32_cas_success [of m a x1 y1] by simp
  then have cell: "load128 m1 a = W1"
    using m1 sep1 by (simp add: load128_store128_other load128_store128)
  then have "load128 m1 a \<noteq> load128 m1 x2" using assms(1,7) by simp
  then have "compareAndSet_i128_win32 m1 a x2 y2 = (False, store128 m1 x2 (load128 m1 a))"
    by (rule win32_cas_failure)
  with first cell sep2 show ?thesis
    by (simp add: load128_store128_other load128_store128)
qed

lemma backends_agree:
  assumes sep: "e + 1 < a \<or> a + 1 < e"
    and "x \<noteq> p"
    and "struct_at m a = h p" "struct_at m e = h x" "struct_at m d = h y"
  shows "fst (compareAndSet_i128_win32 m a e d) = fst (compareAndSet_i128 sp h p x y) \<and>
         struct_at (snd (compareAndSet_i128_win32 m a e d)) a =
           snd (compareAndSet_i128 sp h p x y) p \<and>
         struct_at (snd (compareAndSet_i128_win32 m a e d)) e =
           snd (compareAndSet_i128 sp h p x y) x"
proof (cases "h p = h x")
  case True
  then have "load128 m a = load128 m e"
    using assms(3,4) by (simp add: load128_eq_iff)
  then have w: "compareAndSet_i128_win32 m a e d =
      (True, store128 (store128 m a (load128 m d)) e (load128 m a))"
    by (rule win32_cas_success)
  have c: "compareAndSet_i128 sp h p x y = (True, h(p := h y))"
    using True by (rule cas_success)
  show ?thesis
    using w c sep assms(2-5) True
    by (simp add: struct_at_store128_other struct_at_store128_load128)
next
  case False
  then have "load128 m a \<noteq> load128 m e"
    using assms(3,4) by (simp add: load128_eq_iff)
  then have w: "compareAndSet_i128_win32 m a e d = (False, store128 m e (load128 m a))"
    by (rule win32_cas_failure)
  have c: "compareAndSet_i128 sp h p x y = (False, h(x := h p))"
    using False by (rule cas_failure)
  show ?thesis
    using w c sep assms(2-5) False
    by (simp add: struct_at_store128_other struct_at_store128_load128)
qed

text \<open>
  Claim C1. Let the cell hold \<open>V0\<close> and let \<open>V1\<close> differ from \<open>V0\<close>. A compare-and-set with
  expected value \<open>V0\<close> and desired value \<open>V1\<close> returns true, and a load that follows at once
  delivers \<open>V1\<close>. A second compare-and-set with expected value \<open>V0\<close> and any desired value
  \<open>V2\<close> returns false, the cell still holds \<open>V1\<close>, and the expected buffer holds \<open>V1\<close>
  afterwards. This is so for the function of either branch. The \<^verbatim>\<open>_WIN32\<close> branch exports
  no load, so there the cell is read directly; its expected array must not overlap the
  cell, because the instruction writes the old contents back to it in every case.
\<close>

theorem cas_correctness:
  fixes V0 V1 V2 :: atomic128_t and W0 W1 W2 :: u128
  assumes "V0 \<noteq> V1"
    and "h addr = V0" "h e1 = V0" "h d1 = V1"
    and "h1 = snd (compareAndSet_i128 sp1 h addr e1 d1)"
    and "h2 = getVolatile_i128 h1 addr out"
    and "h2 e2 = V0" "h2 d2 = V2"
    and "W0 \<noteq> W1"
    and "load128 m a = W0" "load128 m x1 = W0" "load128 m y1 = W1"
    and "x1 + 1 < a \<or> a + 1 < x1"
    and "m1 = snd (compareAndSet_i128_win32 m a x1 y1)"
    and "load128 m1 x2 = W0" "load128 m1 y2 = W2"
    and "x2 + 1 < a \<or> a + 1 < x2"
  shows "(fst (compareAndSet_i128 sp1 h addr e1 d1) \<and> h2 out = V1 \<and> h2 addr = V1 \<and>
          \<not> fst (compareAndSet_i128 sp2 h2 addr e2 d2) \<and>
          snd (compareAndSet_i128 sp2 h2 addr e2 d2) addr = V1 \<and>
          snd (compareAndSet_i128 sp2 h2 addr e2 d2) e2 = V1) \<and>
         (fst (compareAndSet_i128_win32 m a x1 y1) \<and> load128 m1 a = W1 \<and>
          \<not> fst (compareAndSet_i128_win32 m1 a x2 y2) \<and>
          load128 (snd (compareAndSet_i128_win32 m1 a x2 y2)) a = W1 \<and>
          load128 (snd (compareAndSet_i128_win32 m1 a x2 y2)) x2 = W1)"
  using posix_scenario [OF assms(1-8), of sp2] win32_scenario [OF assms(9-17)]
  by (rule conjI)

lemma sample_load128:
  "load128 sample_wheap 2 = word_cat (2 :: u64) (1 :: u64)"
  "load128 sample_wheap 4 = word_cat (2 :: u64) (1 :: u64)"
  "load128 sample_wheap 6 = word_cat (4 :: u64) (3 :: u64)"
  "load128 sample_wheap 8 = word_cat (6 :: u64) (5 :: u64)"
  by (simp_all add: load128_def sample_wheap_values)

theorem cas_correctness_witness:
  "fst (compareAndSet_i128 True sample_heap 16 32 48) \<and>
   getVolatile_i128 (snd (compareAndSet_i128 True sample_heap 16 32 48)) 16 80 80
     = \<lparr>low = 3, high = 4\<rparr> \<and>
   \<not> fst (compareAndSet_i128 True
            (getVolatile_i128 (snd (compareAndSet_i128 True sample_heap 16 32 48)) 16 80)
            16 32 64) \<and>
   snd (compareAndSet_i128 True
            (getVolatile_i128 (snd (compareAndSet_i128 True sample_heap 16 32 48)) 16 80)
            16 32 64) 32 = \<lparr>low = 3, high = 4\<rparr> \<and>
   fst (compareAndSet_i128_win32 sample_wheap 2 4 6) \<and>
   load128 (snd (compareAndSet_i128_win32 sample_wheap 2 4 6)) 2 = load128 sample_wheap 6 \<and>
   \<not> fst (compareAndSet_i128_win32 (snd (compareAndSet_i128_win32 sample_wheap 2 4 6)) 2 4 8) \<and>
   load128 (snd (compareAndSet_i128_win32
                  (snd (compareAndSet_i128_win32 sample_wheap 2 4 6)) 2 4 8)) 4
     = load128 sample_wheap 6"
proof -
  let ?h1 = "snd (compareAndSet_i128 True sample_heap 16 32 48)"
  let ?h2 = "getVolatile_i128 ?h1 16 80"
  let ?m1 = "snd (compareAndSet_i128_win32 sample_wheap 2 4 6)"
  have V: "sample_heap 16 \<noteq> sample_heap 48" "sample_heap 32 = sample_heap 16"
    by (simp_all add: sample_heap_values)
  have h1: "?h1 = sample_heap(16 := sample_heap 48)"
    using cas_success [OF V(2) [symmetric], of True 48] by simp
  have h2: "?h2 32 = sample_heap 16" "?h2 64 = sample_heap 64"
    by (simp_all add: h1 getVolatile_i128_def atomic_load_def V(2))
  have W: "load128 sample_wheap 2 \<noteq> load128 sample_wheap 6"
      "load128 sample_wheap 4 = load128 sample_wheap 2"
    by (simp_all add: sample_load128 word_cat_eq_iff)
  have m1: "?m1 = store128 (store128 sample_wheap 2 (load128 sample_wheap 6)) 4 (load128 sample_wheap 2)"
    using win32_cas_success [OF W(2) [symmetric], of 6] by simp
  have m1v: "load128 ?m1 4 = load128 sample_wheap 2" "load128 ?m1 8 = load128 sample_wheap 8"
    by (simp_all add: m1 load128_store128 load128_store128_other)
  show ?thesis
    using cas_correctness [OF V(1) refl V(2) refl refl refl h2(1) h2(2) W(1) refl W(2) refl _ refl m1v(1) m1v(2), of True]
    by (simp add: sample_heap_values)
qed

text \<open>
  Claim C7. A 128-bit value is two 64-bit words, the low word first: field \<open>low\<close> of the
  struct, index 0 of the array, bits 0 to 63 of the value that the double-width instruction
  compares; then field \<open>high\<close>, index 1, bits 64 to 127. The \<^verbatim>\<open>_WIN32\<close> function hands
  \<^verbatim>\<open>desired[1]\<close> to the instruction as the high exchange word and \<^verbatim>\<open>desired[0]\<close> as the
  low one. Under this reading the two branches do the same: on memories that hold the same
  structs, with the expected buffer apart from the cell, they return the same flag and
  leave the same contents in the cell and in the expected buffer.
\<close>

theorem boundary_word_order:
  assumes "e + 1 < a \<or> a + 1 < e"
    and "x \<noteq> p"
    and "struct_at m a = h p" "struct_at m e = h x" "struct_at m d = h y"
  shows "load128 m a = word_cat (high (h p)) (low (h p)) \<and>
         compareAndSet_i128_win32 m a e d =
           (case InterlockedCompareExchange128 m a (high (h y)) (low (h y)) e of
              (r, m') \<Rightarrow> (r \<noteq> 0, m')) \<and>
         fst (compareAndSet_i128_win32 m a e d) = fst (compareAndSet_i128 sp h p x y) \<and>
         struct_at (snd (compareAndSet_i128_win32 m a e d)) a =
           snd (compareAndSet_i128 sp h p x y) p \<and>
         struct_at (snd (compareAndSet_i128_win32 m a e d)) e =
           snd (compareAndSet_i128 sp h p x y) x"
proof -
  have "load128 m a = word_cat (high (h p)) (low (h p))"
    using assms(3) by (simp add: load128_struct_at)
  moreover have "compareAndSet_i128_win32 m a e d =
           (case InterlockedCompareExchange128 m a (high (h y)) (low (h y)) e of
              (r, m') \<Rightarrow> (r \<noteq> 0, m'))"
    using assms(5) [symmetric] by (simp add: compareAndSet_i128_win32_def struct_at_def)
  ultimately show ?thesis
    using backends_agree [OF assms, of sp] by simp
qed

lemma sample_struct_at:
  "struct_at sample_wheap 2 = sample_heap 16"
  "struct_at sample_wheap 4 = sample_heap 32"
  "struct_at sample_wheap 6 = sample_heap 48"
  "struct_at sample_wheap 8 = sample_heap 64"
  by (simp_all add: struct_at_def sample_wheap_values sample_heap_values)

theorem boundary_word_order_witness:
  "load128 sample_wheap 2 = word_cat (high (sample_heap 16)) (low (sample_heap 16)) \<and>
   compareAndSet_i128_win32 sample_wheap 2 4 6 =
     (case InterlockedCompareExchange128 sample_wheap 2
             (high (sample_heap 48)) (low (sample_heap 48)) 4 of
        (r, m') \<Rightarrow> (r \<noteq> 0, m')) \<and>
   fst (compareAndSet_i128_win32 sample_wheap 2 4 6) =
     fst (compareAndSet_i128 True sample_heap 16 32 48) \<and>
   struct_at (snd (compareAndSet_i128_win32 sample_wheap 2 4 6)) 2 =
     snd (compareAndSet_i128 True sample_heap 16 32 48) 16 \<and>
   struct_at (snd (compareAndSet_i128_win32 sample_wheap 2 4 6)) 4 =
     snd (compareAndSet_i128 True sample_heap 16 32 48) 32"
proof -
  have sep: "(4 :: nat) + 1 < 2 \<or> (2 :: nat) + 1 < 4" by simp
  have ne: "(32 :: nat) \<noteq> 16" by simp
  show ?thesis
    by (rule boundary_word_order
        [OF sep ne sample_struct_at(1) sample_struct_at(2) sample_struct_at(3)])
qed


section \<open>What each build exports\<close>

text \<open>
  Claim C8. The \<^verbatim>\<open>_WIN32\<close> build exports one function, the strong compare-and-swap; it
  has no load, no store and no weak compare-and-swap. The other build exports loads, stores,
  the strong and the weak compare-and-swap, with the loads in the orders relaxed, acquire
  and sequentially consistent and the stores in the orders relaxed, release and sequentially
  consistent.
\<close>

theorem exported_families:
  "map (family_of \<circ> snd) (exported WIN32) = [Strong_CAS] \<and>
   map fst (exported WIN32) = [''compareAndSet_i128''] \<and>
   remdups (map (family_of \<circ> snd) (exported Not_WIN32)) = [Load, Strong_CAS, Weak_CAS, Store] \<and>
   List.map_filter (load_order \<circ> snd) (exported Not_WIN32) =
     [ATOMIC_RELAXED, ATOMIC_ACQUIRE, ATOMIC_SEQ_CST] \<and>
   List.map_filter (store_order \<circ> snd) (exported Not_WIN32) =
     [ATOMIC_RELAXED, ATOMIC_RELEASE, ATOMIC_SEQ_CST]"
  by (simp add: exported_def List.map_filter_simps)

text \<open>
  Claim C9. Every exported load uses one of the orders relaxed, acquire and sequentially
  consistent, and every exported store uses one of the orders relaxed, release and
  sequentially consistent. The order is a constant inside each function; no exported
  function has a parameter for it.
\<close>

theorem exported_orderings:
  "(\<forall>b name mo. (name, Atomic_load mo) \<in> set (exported b) \<longrightarrow>
      mo \<in> {ATOMIC_RELAXED, ATOMIC_ACQUIRE, ATOMIC_SEQ_CST}) \<and>
   (\<forall>b name mo. (name, Atomic_store mo) \<in> set (exported b) \<longrightarrow>
      mo \<in> {ATOMIC_RELAXED, ATOMIC_RELEASE, ATOMIC_SEQ_CST})"
  by (auto simp add: exported_def split: build.splits)

theorem exported_orderings_witness:
  "(''getAcquire_i128'', Atomic_load ATOMIC_ACQUIRE) \<in> set (exported Not_WIN32) \<and>
   ATOMIC_ACQUIRE \<in> {ATOMIC_RELAXED, ATOMIC_ACQUIRE, ATOMIC_SEQ_CST} \<and>
   (''setRelease_i128'', Atomic_store ATOMIC_RELEASE) \<in> set (exported Not_WIN32) \<and>
   ATOMIC_RELEASE \<in> {ATOMIC_RELAXED, ATOMIC_RELEASE, ATOMIC_SEQ_CST}"
proof -
  have l: "(''getAcquire_i128'', Atomic_load ATOMIC_ACQUIRE) \<in> set (exported Not_WIN32)"
    by (simp add: exported_def)
  have s: "(''setRelease_i128'', Atomic_store ATOMIC_RELEASE) \<in> set (exported Not_WIN32)"
    by (simp add: exported_def)
  from exported_orderings l s show ?thesis by blast
qed

end
